theory Spec2Isabelle
  imports Complex_Main "HOL-Library.Sublist"
begin

section \<open>Python values and documents\<close>

text \<open>
  Strings are lists of characters; the source texts handled here are taken to be ASCII.
  A Python value stored in a metadata dictionary is one of the JSON-like values below;
  tuples are kept apart from lists, since Python compares them as different.
  A dictionary with string keys is an association list, looked up with \<open>map_of\<close>
  (\<open>d.get(key)\<close> is \<open>None\<close> for a missing key).
\<close>

datatype pyval =
    VNone
  | VBool bool
  | VInt int
  | VStr string
  | VList "pyval list"
  | VTuple "pyval list"

type_synonym pydict = "(string \<times> pyval) list"

datatype error = ValueError | AttributeError | KeyError | TypeError | IOError | RuntimeError

record document =
  page_content :: string
  metadata :: pydict

definition dict_get :: "pydict \<Rightarrow> string \<Rightarrow> pyval" where
  "dict_get d key = (case map_of d key of None \<Rightarrow> VNone | Some v \<Rightarrow> v)"

subsection \<open>Python equality and slices\<close>

text \<open>
  \<open>py_eq\<close> is Python's \<open>==\<close> on these values: booleans compare equal to the
  integers 0 and 1, a list never equals a tuple. \<open>py_slice_from xs i\<close> is \<open>xs[i:]\<close>
  and \<open>py_slice_to xs i\<close> is \<open>xs[:i]\<close>, with negative indices counted from the end
  and out-of-range indices clamped, as Python does.
\<close>

fun py_eq :: "pyval \<Rightarrow> pyval \<Rightarrow> bool"
  and py_eq_list :: "pyval list \<Rightarrow> pyval list \<Rightarrow> bool" where
  "py_eq VNone v = (v = VNone)"
| "py_eq (VBool b) v =
     (case v of VBool c \<Rightarrow> b = c | VInt i \<Rightarrow> i = (if b then 1 else 0) | _ \<Rightarrow> False)"
| "py_eq (VInt i) v =
     (case v of VInt j \<Rightarrow> i = j | VBool c \<Rightarrow> i = (if c then 1 else 0) | _ \<Rightarrow> False)"
| "py_eq (VStr s) v = (v = VStr s)"
| "py_eq (VList xs) v = (case v of VList ys \<Rightarrow> py_eq_list xs ys | _ \<Rightarrow> False)"
| "py_eq (VTuple xs) v = (case v of VTuple ys \<Rightarrow> py_eq_list xs ys | _ \<Rightarrow> False)"
| "py_eq_list [] ys = (ys = [])"
| "py_eq_list (x # xs) ys =
     (case ys of [] \<Rightarrow> False | y # ys' \<Rightarrow> py_eq x y \<and> py_eq_list xs ys')"

definition py_slice_from :: "'a list \<Rightarrow> int \<Rightarrow> 'a list" where
  "py_slice_from xs i =
     (if i < 0 then drop (length xs - nat (- i)) xs else drop (nat i) xs)"

definition py_slice_to :: "'a list \<Rightarrow> int \<Rightarrow> 'a list" where
  "py_slice_to xs i =
     (if i < 0 then take (length xs - nat (- i)) xs else take (nat i) xs)"

subsection \<open>Strings\<close>

text \<open>
  \<open>lower\<close> is \<open>str.lower\<close> on ASCII text, \<open>py_in sub s\<close> is the substring test
  \<open>sub in s\<close>, and \<open>basename\<close> is \<open>os.path.basename\<close> on POSIX paths.
\<close>

definition lower_char :: "char \<Rightarrow> char" where
  "lower_char c =
     (let n = (of_char c :: nat) in if 65 \<le> n \<and> n \<le> 90 then char_of (n + 32) else c)"

definition lower :: "string \<Rightarrow> string" where
  "lower s = map lower_char s"

definition py_in :: "string \<Rightarrow> string \<Rightarrow> bool" where
  "py_in sub s = sublist sub s"

definition basename :: "string \<Rightarrow> string" where
  "basename p = rev (takeWhile (\<lambda>c. c \<noteq> CHR ''/'') (rev p))"

subsection \<open>Document processor: subject from the file name\<close>

text \<open>
  \<open>DocumentProcessor._extract_subject_from_filename\<close> (document_processor.py, lines 74-90).
  The dictionary \<open>subjects\<close> is iterated in insertion order, so it is a list of pairs;
  the loop with its early return is \<open>first_subject\<close>.
\<close>

definition subjects :: "(string \<times> string list) list" where
  "subjects =
     [(''math'', [''math'', ''mathematics'', ''algebra'', ''geometry'', ''calculus'']),
      (''science'', [''science'', ''physics'', ''chemistry'', ''biology'']),
      (''history'', [''history'', ''social'', ''studies'']),
      (''english'', [''english'', ''literature'', ''language'', ''writing'']),
      (''computer'', [''computer'', ''programming'', ''coding'', ''cs''])]"

fun first_subject :: "(string \<times> string list) list \<Rightarrow> string \<Rightarrow> string" where
  "first_subject [] filename = ''general''"
| "first_subject ((subject, keywords) # rest) filename =
     (if list_ex (\<lambda>keyword. py_in keyword filename) keywords then subject
      else first_subject rest filename)"

definition extract_subject_from_filename :: "string \<Rightarrow> string" where
  "extract_subject_from_filename file_path =
     (let filename = lower (basename file_path) in first_subject subjects filename)"

subsection \<open>Conversation memory manager\<close>

text \<open>
  \<open>ConversationMemoryManager\<close> (conversation_memory.py). The state is the record
  \<open>memory_manager\<close>; \<open>chat_memory\<close> is the message list of the LangChain window memory.
  Each operation takes the state and returns the new one. The two calls of
  \<open>datetime.now().isoformat()\<close> in \<open>add_interaction\<close> and
  \<open>_update_student_profile\<close> are the pair \<open>clock\<close>. For string inputs no statement of
  the two \<open>try\<close> blocks raises, so the \<open>except\<close> branches are not reached.
\<close>

datatype message = HumanMessage string | AIMessage string

record interaction =
  i_timestamp :: string
  i_human_input :: string
  i_ai_response :: string
  i_metadata :: pydict

record profile =
  learning_style :: string
  difficulty_preference :: string
  subjects_of_interest :: "string list"
  common_mistakes :: "string list"
  strengths :: "string list"
  session_count :: int
  last_session :: "string option"

record memory_manager =
  max_history :: int
  chat_memory :: "message list"
  student_profile :: profile
  conversation_history :: "interaction list"

definition new_memory_manager :: "int \<Rightarrow> memory_manager" where
  "new_memory_manager h =
     \<lparr>max_history = h, chat_memory = [],
      student_profile =
        \<lparr>learning_style = ''adaptive'', difficulty_preference = ''medium'',
         subjects_of_interest = [], common_mistakes = [], strengths = [],
         session_count = 0, last_session = None\<rparr>,
      conversation_history = []\<rparr>"

definition any_in :: "string list \<Rightarrow> string \<Rightarrow> bool" where
  "any_in words s = list_ex (\<lambda>word. py_in word s) words"

definition update_student_profile ::
  "string \<Rightarrow> memory_manager \<Rightarrow> string \<Rightarrow> string \<Rightarrow> pydict option \<Rightarrow> memory_manager" where
  "update_student_profile now mm human_input ai_response md =
     (let p = student_profile mm;
          p1 = (case md of
                  None \<Rightarrow> p
                | Some d \<Rightarrow>
                    (if d \<noteq> [] \<and> map_of d ''subject'' \<noteq> None then
                       (case dict_get d ''subject'' of
                          VStr subject \<Rightarrow>
                            (if subject \<noteq> [] \<and> subject \<notin> set (subjects_of_interest p)
                             then p\<lparr>subjects_of_interest := subjects_of_interest p @ [subject]\<rparr>
                             else p)
                        | _ \<Rightarrow> p)
                     else p));
          input_lower = lower human_input;
          p2 = (if any_in [''easy'', ''simple'', ''basic''] input_lower
                then p1\<lparr>difficulty_preference := ''easy''\<rparr>
                else if any_in [''hard'', ''difficult'', ''challenging'', ''advanced''] input_lower
                then p1\<lparr>difficulty_preference := ''hard''\<rparr>
                else p1);
          p3 = (if any_in [''example'', ''show me'', ''demonstrate''] input_lower
                then p2\<lparr>learning_style := ''visual''\<rparr>
                else if any_in [''explain'', ''why'', ''how''] input_lower
                then p2\<lparr>learning_style := ''analytical''\<rparr>
                else if any_in [''practice'', ''try'', ''do''] input_lower
                then p2\<lparr>learning_style := ''hands-on''\<rparr>
                else p2);
          p4 = p3\<lparr>session_count := session_count p3 + 1, last_session := Some now\<rparr>
      in mm\<lparr>student_profile := p4\<rparr>)"

definition add_interaction ::
  "string \<times> string \<Rightarrow> memory_manager \<Rightarrow> string \<Rightarrow> string \<Rightarrow> pydict option \<Rightarrow> memory_manager" where
  "add_interaction clock mm human_input ai_response md =
     (let mm1 = mm\<lparr>chat_memory :=
                   chat_memory mm @ [HumanMessage human_input, AIMessage ai_response]\<rparr>;
          interaction =
            \<lparr>i_timestamp = fst clock, i_human_input = human_input,
             i_ai_response = ai_response,
             i_metadata = (case md of None \<Rightarrow> [] | Some d \<Rightarrow> d)\<rparr>;
          history = conversation_history mm1 @ [interaction];
          history' =
            (if int (length history) > max_history mm1 * 2
             then py_slice_from history (- max_history mm1 * 2) else history);
          mm2 = mm1\<lparr>conversation_history := history'\<rparr>
      in update_student_profile (snd clock) mm2 human_input ai_response md)"

record call =
  c_clock :: "string \<times> string"
  c_human_input :: string
  c_ai_response :: string
  c_metadata :: "pydict option"

fun add_interactions :: "memory_manager \<Rightarrow> call list \<Rightarrow> memory_manager" where
  "add_interactions mm [] = mm"
| "add_interactions mm (c # cs) =
     add_interactions
       (add_interaction (c_clock c) mm (c_human_input c) (c_ai_response c) (c_metadata c)) cs"

subsection \<open>Vector store manager\<close>

text \<open>
  \<open>VectorStoreManager.similarity_search\<close> (vector_store.py, lines 109-133). The FAISS
  index is a parameter: a function from the query and the number of results to the ranked
  documents, or an exception. \<open>self.vector_store\<close> is \<open>None\<close> before it is created.
  The loop over the results, with its \<open>break\<close>, is \<open>filter_loop\<close>.
\<close>

type_synonym vector_store = "string \<Rightarrow> int \<Rightarrow> error + document list"

definition matches_filter :: "pydict \<Rightarrow> document \<Rightarrow> bool" where
  "matches_filter filter_dict doc =
     list_all (\<lambda>(key, v). py_eq (dict_get (metadata doc) key) v) filter_dict"

fun filter_loop :: "pydict \<Rightarrow> int \<Rightarrow> document list \<Rightarrow> document list \<Rightarrow> document list" where
  "filter_loop filter_dict k filtered_results [] = filtered_results"
| "filter_loop filter_dict k filtered_results (doc # results) =
     (if matches_filter filter_dict doc then
        (let filtered_results' = filtered_results @ [doc]
         in if int (length filtered_results') \<ge> k then filtered_results'
            else filter_loop filter_dict k filtered_results' results)
      else filter_loop filter_dict k filtered_results results)"

definition similarity_search ::
  "vector_store option \<Rightarrow> string \<Rightarrow> int \<Rightarrow> pydict option \<Rightarrow> document list" where
  "similarity_search vs query k filter_dict =
     (case vs of
        None \<Rightarrow> []
      | Some store \<Rightarrow>
          (case filter_dict of
             Some (kv # kvs) \<Rightarrow>
               (case store query (k * 2) of
                  Inl e \<Rightarrow> []
                | Inr results \<Rightarrow> py_slice_to (filter_loop (kv # kvs) k [] results) k)
           | _ \<Rightarrow> (case store query k of Inl e \<Rightarrow> [] | Inr results \<Rightarrow> results)))"

subsection \<open>LLM manager: backend selection\<close>

text \<open>
  \<open>LLMManager._initialize_model\<close> and the four initializers (llm_manager.py, lines
  27-145). The record \<open>llm_env\<close> says which constructors of the libraries raise. An
  initializer returns the exception it re-raises, if any, and the manager as it left it;
  \<open>spec_selected_backend\<close> is the selection as the specification words it.
\<close>

datatype backend = HuggingFaceHub | HuggingFacePipeline | ChatGoogleGenerativeAI | FakeListLLM

record llm_manager =
  model_name :: string
  gemini_api_key :: string
  huggingface_api_token :: string
  use_local :: bool
  llm :: "backend option"
  tokenizer :: bool
  provider :: string

record llm_env =
  hub_raises :: bool
  tokenizer_raises :: bool
  local_model_raises :: bool
  gemini_raises :: bool
  fake_list_raises :: bool

definition initialize_huggingface_hub_model ::
  "llm_env \<Rightarrow> llm_manager \<Rightarrow> error option \<times> llm_manager" where
  "initialize_huggingface_hub_model env m =
     (if hub_raises env then (Some RuntimeError, m)
      else (None, m\<lparr>llm := Some HuggingFaceHub, provider := ''huggingface_hub''\<rparr>))"

definition initialize_local_model ::
  "llm_env \<Rightarrow> llm_manager \<Rightarrow> error option \<times> llm_manager" where
  "initialize_local_model env m =
     (if tokenizer_raises env then (Some RuntimeError, m)
      else let m1 = m\<lparr>tokenizer := True\<rparr>
           in if local_model_raises env then (Some RuntimeError, m1)
              else (None, m1\<lparr>llm := Some HuggingFacePipeline,
                               provider := ''local_hf_pipeline''\<rparr>))"

definition initialize_gemini_model ::
  "llm_env \<Rightarrow> llm_manager \<Rightarrow> error option \<times> llm_manager" where
  "initialize_gemini_model env m =
     (if gemini_raises env then (Some RuntimeError, m)
      else (None, m\<lparr>llm := Some ChatGoogleGenerativeAI, provider := ''gemini''\<rparr>))"

definition initialize_fallback_model ::
  "llm_env \<Rightarrow> llm_manager \<Rightarrow> error option \<times> llm_manager" where
  "initialize_fallback_model env m =
     (if fake_list_raises env then (Some RuntimeError, m)
      else (None, m\<lparr>llm := Some FakeListLLM, provider := ''fallback_fake_llm''\<rparr>))"

definition initialize_model :: "llm_env \<Rightarrow> llm_manager \<Rightarrow> error option \<times> llm_manager" where
  "initialize_model env m =
     (let (r, m1) =
            (if huggingface_api_token m \<noteq> [] \<and>
                (py_in ''/'' (model_name m) \<or> py_in ''mistral'' (lower (model_name m)))
             then initialize_huggingface_hub_model env m
             else if use_local m then initialize_local_model env m
             else if gemini_api_key m \<noteq> [] \<and> py_in ''gemini'' (lower (model_name m))
             then initialize_gemini_model env m
             else initialize_fallback_model env m)
      in case r of None \<Rightarrow> (None, m1) | Some e \<Rightarrow> initialize_fallback_model env m1)"

definition new_llm_manager ::
  "llm_env \<Rightarrow> string \<Rightarrow> string \<Rightarrow> string \<Rightarrow> bool \<Rightarrow> error option \<times> llm_manager" where
  "new_llm_manager env name gemini_key hf_token local =
     initialize_model env
       \<lparr>model_name = name, gemini_api_key = gemini_key, huggingface_api_token = hf_token,
        use_local = local, llm = None, tokenizer = False, provider = ''unknown''\<rparr>"

definition spec_selected_backend :: "string \<Rightarrow> string \<Rightarrow> string \<Rightarrow> bool \<Rightarrow> backend" where
  "spec_selected_backend name gemini_key hf_token local =
     (if hf_token \<noteq> [] \<and> (sublist ''/'' name \<or> sublist ''mistral'' (lower name))
      then HuggingFaceHub
      else if local then HuggingFacePipeline
      else if gemini_key \<noteq> [] \<and> sublist ''gemini'' (lower name) then ChatGoogleGenerativeAI
      else FakeListLLM)"

fun initializer_raises :: "llm_env \<Rightarrow> backend \<Rightarrow> bool" where
  "initializer_raises env HuggingFaceHub = hub_raises env"
| "initializer_raises env HuggingFacePipeline = (tokenizer_raises env \<or> local_model_raises env)"
| "initializer_raises env ChatGoogleGenerativeAI = gemini_raises env"
| "initializer_raises env FakeListLLM = fake_list_raises env"

fun provider_name :: "backend \<Rightarrow> string" where
  "provider_name HuggingFaceHub = ''huggingface_hub''"
| "provider_name HuggingFacePipeline = ''local_hf_pipeline''"
| "provider_name ChatGoogleGenerativeAI = ''gemini''"
| "provider_name FakeListLLM = ''fallback_fake_llm''"


subsection \<open>LLM manager: response cleanup\<close>



fun py_join :: "string \<Rightarrow> string list \<Rightarrow> string" where
  "py_join sep [] = []"
| "py_join sep [x] = x"
| "py_join sep (x # y # ys) = x @ sep @ py_join sep (y # ys)"



fun count_occurrences :: "string \<Rightarrow> string \<Rightarrow> nat" where
  "count_occurrences sub [] = 0"
| "count_occurrences sub (c # cs) =
     (if prefix sub (c # cs) then 1 else 0) + count_occurrences sub cs"




subsection \<open>Example inputs\<close>

definition example_docs :: "document list" where
  "example_docs =
     [\<lparr>page_content = ''a'', metadata = [(''subject'', VStr ''science'')]\<rparr>,
      \<lparr>page_content = ''b'', metadata = [(''subject'', VStr ''math'')]\<rparr>,
      \<lparr>page_content = ''c'', metadata = [(''subject'', VStr ''math'')]\<rparr>]"

definition example_store :: vector_store where
  "example_store query n = Inr (take (nat n) example_docs)"

definition example_calls :: "call list" where
  "example_calls =
     [\<lparr>c_clock = (''t1'', ''t2''), c_human_input = ''Explain fractions'',
       c_ai_response = ''ok'', c_metadata = Some [(''subject'', VStr ''math'')]\<rparr>,
      \<lparr>c_clock = (''t3'', ''t4''), c_human_input = ''Show me an easy one'',
       c_ai_response = ''ok'', c_metadata = Some [(''subject'', VStr ''math'')]\<rparr>]"

definition example_env :: llm_env where
  "example_env =
     \<lparr>hub_raises = True, tokenizer_raises = False, local_model_raises = False,
      gemini_raises = False, fake_list_raises = False\<rparr>"

definition example_manager :: llm_manager where
  "example_manager =
     \<lparr>model_name = ''mistralai/Mistral-7B'', gemini_api_key = [],
      huggingface_api_token = ''hf_token'', use_local = False, llm = None,
      tokenizer = False, provider = ''unknown''\<rparr>"

subsection \<open>RAG pipeline: query\<close>

text \<open>
  \<open>RAGPipeline.query\<close> and the functions it calls (rag_pipeline.py, lines 119-200;
  conversation_memory.py, lines 64-113 and 199-222). The chain is a parameter: either a
  chain with \<open>invoke\<close>, which reads and writes the shared window memory, or a chain with
  \<open>run\<close>; both may raise. \<open>llm_manager.generate_response\<close> is a parameter that returns
  a string or raises. Float arithmetic is not modelled: the type \<open>'f\<close> stands for Python
  floats, and the literals 0.3 and 0.0 and \<open>_calculate_confidence\<close> are fields of the
  pipeline. \<open>query_body\<close> is the \<open>try\<close> block, \<open>rag_query\<close> the whole method with its
  two handlers; the result is \<open>Inl\<close> for an exception that leaves the method.
\<close>

definition dict_get_default :: "pydict \<Rightarrow> string \<Rightarrow> pyval \<Rightarrow> pyval" where
  "dict_get_default d key dflt = (case map_of d key of None \<Rightarrow> dflt | Some v \<Rightarrow> v)"

function str_of_nat :: "nat \<Rightarrow> string" where
  "str_of_nat n =
     (if n < 10 then [char_of (48 + n)]
      else str_of_nat (n div 10) @ [char_of (48 + n mod 10)])"
  by pat_completeness auto
termination
  by (relation "measure id") auto

definition py_str_int :: "int \<Rightarrow> string" where
  "py_str_int i = (if i < 0 then CHR ''-'' # str_of_nat (nat (- i)) else str_of_nat (nat i))"

definition newline :: string where
  "newline = [CHR 0x0A]"

definition get_conversation_context :: "memory_manager \<Rightarrow> string" where
  "get_conversation_context mm =
     (if conversation_history mm = [] then ''This is the beginning of our conversation.''
      else let recent_interactions = py_slice_from (conversation_history mm) (- 3)
           in py_join newline
                (concat (map (\<lambda>interaction.
                   [''Student: '' @ i_human_input interaction,
                    ''Tutor: '' @ take 200 (i_ai_response interaction) @ ''...''])
                   recent_interactions)))"

definition clean_items :: "string list \<Rightarrow> string list" where
  "clean_items items = filter (\<lambda>x. x \<noteq> []) items"

definition get_student_profile_summary :: "memory_manager \<Rightarrow> string" where
  "get_student_profile_summary mm =
     (let profile = student_profile mm;
          subjects = clean_items (subjects_of_interest profile);
          parts1 = (if subjects \<noteq> [] then [''Interested in: '' @ py_join '', '' subjects] else []);
          strengths' = clean_items (strengths profile);
          parts2 = parts1 @ (if strengths' \<noteq> [] then [''Strengths: '' @ py_join '', '' strengths']
                             else []);
          mistakes = clean_items (common_mistakes profile);
          parts3 = parts2 @ (if mistakes \<noteq> []
                             then [''Areas for improvement: '' @ py_join '', '' mistakes] else []);
          summary_parts = parts3 @
            [''Learning style: '' @ learning_style profile,
             ''Preferred difficulty: '' @ difficulty_preference profile,
             ''Sessions completed: '' @ py_str_int (session_count profile)]
      in if summary_parts \<noteq> [] then py_join '' | '' summary_parts else ''New student profile'')"

definition get_personalized_context :: "memory_manager \<Rightarrow> string" where
  "get_personalized_context mm =
     (let profile = student_profile mm;
          parts0 = [''STUDENT CONTEXT:'',
                    ''Learning Style: '' @ learning_style profile,
                    ''Difficulty Preference: '' @ difficulty_preference profile,
                    ''Session Count: '' @ py_str_int (session_count profile)];
          parts1 = parts0 @ (if subjects_of_interest profile \<noteq> []
                     then [''Interested Subjects: '' @ py_join '', '' (subjects_of_interest profile)]
                     else []);
          parts2 = parts1 @ (if strengths profile \<noteq> []
                     then [''Strengths: '' @ py_join '', '' (strengths profile)] else []);
          context_parts = parts2 @ (if common_mistakes profile \<noteq> []
                     then [''Areas to Focus: '' @ py_join '', '' (common_mistakes profile)] else [])
      in py_join newline context_parts)"

definition get_memory_variables :: "memory_manager \<Rightarrow> message list" where
  "get_memory_variables mm =
     (if max_history mm > 0 then py_slice_from (chat_memory mm) (- max_history mm * 2) else [])"

record formatted_source =
  fs_id :: nat
  fs_content :: string
  fs_source_file :: pyval
  fs_subject :: pyval
  fs_topic :: pyval

definition format_sources :: "document list \<Rightarrow> formatted_source list" where
  "format_sources source_docs =
     map (\<lambda>(i, doc).
            let content = page_content doc;
                preview = (if length content > 200 then take 200 content @ ''...'' else content)
            in \<lparr>fs_id = i + 1, fs_content = preview,
                fs_source_file = dict_get_default (metadata doc) ''source_file'' (VStr ''Unknown''),
                fs_subject = dict_get_default (metadata doc) ''subject'' (VStr ''General''),
                fs_topic = dict_get_default (metadata doc) ''topic'' (VStr ''N/A'')\<rparr>)
         (enumerate 0 source_docs)"

record chain_result =
  cr_answer :: "string option"
  cr_source_documents :: "document list option"

datatype chain =
    Chain_invoke "string \<Rightarrow> message list \<Rightarrow> message list \<Rightarrow> (error + chain_result) \<times> message list"
  | Chain_run "string \<Rightarrow> string \<Rightarrow> error + string"

record 'f response =
  answer :: string
  sources :: "formatted_source list"
  r_student_profile :: string
  confidence :: 'f

record 'f rag_pipeline =
  chain :: chain
  generate_response :: "string \<Rightarrow> error + string"
  float_0_3 :: 'f
  float_0_0 :: 'f
  calculate_confidence :: "document list \<Rightarrow> 'f"

definition run_chain ::
  "'f rag_pipeline \<Rightarrow> memory_manager \<Rightarrow> string \<Rightarrow> (error + chain_result) \<times> memory_manager" where
  "run_chain p mm question =
     (let student_context = get_personalized_context mm
      in case chain p of
           Chain_invoke invoke \<Rightarrow>
             (let chat_history = get_memory_variables mm;
                  composed_question =
                    ''STUDENT CONTEXT: '' @ student_context @ newline @ newline @
                    ''QUESTION: '' @ question;
                  (result, messages) = invoke composed_question chat_history (chat_memory mm)
              in (result, mm\<lparr>chat_memory := messages\<rparr>))
         | Chain_run run \<Rightarrow>
             (let chat_history = get_conversation_context mm
              in case run question chat_history of
                   Inl e \<Rightarrow> (Inl e, mm)
                 | Inr result_text \<Rightarrow>
                     (Inr \<lparr>cr_answer = Some result_text, cr_source_documents = Some []\<rparr>, mm)))"

definition query_body ::
  "'f rag_pipeline \<Rightarrow> string \<times> string \<Rightarrow> memory_manager \<Rightarrow> string \<Rightarrow> string option \<Rightarrow>
     (error + 'f response) \<times> memory_manager" where
  "query_body p clock mm question subject_filter =
     (case run_chain p mm question of
        (Inl e, mm1) \<Rightarrow> (Inl e, mm1)
      | (Inr result, mm1) \<Rightarrow>
          (let answer' = (case cr_answer result of
                            None \<Rightarrow> ''I'm sorry, I couldn't generate a response.''
                          | Some a \<Rightarrow> a);
               source_docs = (case cr_source_documents result of None \<Rightarrow> [] | Some ds \<Rightarrow> ds);
               md = [(''subject'', (case subject_filter of None \<Rightarrow> VNone | Some s \<Rightarrow> VStr s)),
                     (''num_sources'', VInt (int (length source_docs))),
                     (''sources'',
                        VList (map (\<lambda>doc. dict_get_default (metadata doc) ''source_file''
                                           (VStr ''unknown'')) source_docs))];
               mm2 = add_interaction clock mm1 question answer' (Some md)
           in (Inr \<lparr>answer = answer', sources = format_sources source_docs,
                     r_student_profile = get_student_profile_summary mm2,
                     confidence = calculate_confidence p source_docs\<rparr>, mm2)))"

definition apology_answer :: string where
  "apology_answer =
     ''I apologize, but I'm having trouble processing your question right now. Could you please try rephrasing it?''"

definition rag_query ::
  "'f rag_pipeline \<Rightarrow> string \<times> string \<Rightarrow> memory_manager \<Rightarrow> string \<Rightarrow> string option \<Rightarrow>
     (error + 'f response) \<times> memory_manager" where
  "rag_query p clock mm question subject_filter =
     (case query_body p clock mm question subject_filter of
        (Inr response, mm') \<Rightarrow> (Inr response, mm')
      | (Inl e, mm') \<Rightarrow>
          (case generate_response p question of
             Inr fallback_answer \<Rightarrow>
               (Inr \<lparr>answer = fallback_answer, sources = [],
                     r_student_profile = get_student_profile_summary mm',
                     confidence = float_0_3 p\<rparr>, mm')
           | Inl inner_e \<Rightarrow>
               (Inr \<lparr>answer = apology_answer, sources = [],
                     r_student_profile = get_student_profile_summary mm',
                     confidence = float_0_0 p\<rparr>, mm')))"

subsection \<open>Tutor system: chat and usage statistics\<close>

text \<open>
  \<open>EduSmartAITutor.chat\<close> (tutor_system.py, lines 177-209). The pipeline object is its
  \<open>query\<close> method, acting on the memory manager that tutor and pipeline share; it is
  \<open>None\<close> before \<open>initialize\<close>. \<open>pipeline_query\<close> is that method for a pipeline of
  the previous section.
\<close>

record system_stats =
  total_queries :: int
  successful_responses :: int
  failed_responses :: int
  documents_loaded :: int

record 'f chat_response = "'f response" +
  r_error :: "(string + error) option"
  r_session_id :: "string option option"
  r_query_count :: "int option"

type_synonym 'f query_method =
  "string \<Rightarrow> string option \<Rightarrow> memory_manager option \<Rightarrow>
     (error + 'f response) \<times> memory_manager option"

record 'f tutor =
  is_initialized :: bool
  t_memory_manager :: "memory_manager option"
  t_rag_pipeline :: "'f query_method option"
  current_session_id :: "string option"
  system_stats :: system_stats

definition new_tutor :: "'f tutor" where
  "new_tutor =
     \<lparr>is_initialized = False, t_memory_manager = None, t_rag_pipeline = None,
      current_session_id = None,
      system_stats = \<lparr>total_queries = 0, successful_responses = 0, failed_responses = 0,
                       documents_loaded = 0\<rparr>\<rparr>"

definition pipeline_query :: "'f rag_pipeline \<Rightarrow> string \<times> string \<Rightarrow> 'f query_method" where
  "pipeline_query p clock message subject_filter mem =
     (case mem of
        None \<Rightarrow> (Inl AttributeError, None)
      | Some mm \<Rightarrow>
          (let (r, mm') = rag_query p clock mm message subject_filter in (r, Some mm')))"

definition query_outcome :: "'f tutor \<Rightarrow> string \<Rightarrow> string option \<Rightarrow>
    (error + 'f response) \<times> memory_manager option" where
  "query_outcome t message subject_filter =
     (case t_rag_pipeline t of
        None \<Rightarrow> (Inl AttributeError, t_memory_manager t)
      | Some q \<Rightarrow> q message subject_filter (t_memory_manager t))"

definition chat ::
  "'f \<Rightarrow> 'f tutor \<Rightarrow> string \<Rightarrow> string option \<Rightarrow> 'f chat_response \<times> 'f tutor" where
  "chat float_zero t message subject_filter =
     (if \<not> is_initialized t then
        (\<lparr>answer = ''I'm sorry, but the AI tutor system is not properly initialized. Please try again later.'',
          sources = [], r_student_profile = [], confidence = float_zero,
          r_error = Some (Inl ''System not initialized''),
          r_session_id = None, r_query_count = None\<rparr>, t)
      else
        let s1 = (system_stats t)\<lparr>total_queries := total_queries (system_stats t) + 1\<rparr>;
            (outcome, mem) = query_outcome t message subject_filter;
            t1 = t\<lparr>t_memory_manager := mem, system_stats := s1\<rparr>
        in case outcome of
             Inr response \<Rightarrow>
               (let s2 = (if answer response \<noteq> []
                          then s1\<lparr>successful_responses := successful_responses s1 + 1\<rparr>
                          else s1\<lparr>failed_responses := failed_responses s1 + 1\<rparr>)
                in (\<lparr>answer = answer response, sources = sources response,
                     r_student_profile = r_student_profile response,
                     confidence = confidence response, r_error = None,
                     r_session_id = Some (current_session_id t1),
                     r_query_count = Some (total_queries s2)\<rparr>,
                    t1\<lparr>system_stats := s2\<rparr>))
           | Inl e \<Rightarrow>
               (let s2 = s1\<lparr>failed_responses := failed_responses s1 + 1\<rparr>
                in (\<lparr>answer = ''I apologize, but I encountered an error while processing your question. Please try rephrasing it or ask something else.'',
                     sources = [],
                     r_student_profile =
                       (case mem of Some mm \<Rightarrow> get_student_profile_summary mm | None \<Rightarrow> []),
                     confidence = float_zero, r_error = Some (Inr e),
                     r_session_id = None, r_query_count = None\<rparr>,
                    t1\<lparr>system_stats := s2\<rparr>)))"

fun chats :: "'f \<Rightarrow> 'f tutor \<Rightarrow> (string \<times> string option) list \<Rightarrow> 'f tutor" where
  "chats float_zero t [] = t"
| "chats float_zero t ((message, subject_filter) # calls) =
     chats float_zero (snd (chat float_zero t message subject_filter)) calls"

definition answered :: "'f tutor \<Rightarrow> string \<Rightarrow> string option \<Rightarrow> bool" where
  "answered t message subject_filter =
     (case fst (query_outcome t message subject_filter) of
        Inr response \<Rightarrow> answer response \<noteq> []
      | Inl e \<Rightarrow> False)"

definition example_pipeline :: "nat rag_pipeline" where
  "example_pipeline =
     \<lparr>chain = Chain_run (\<lambda>question chat_history. Inl RuntimeError),
      generate_response = (\<lambda>question. Inr (''Let us look at '' @ question)),
      float_0_3 = 3, float_0_0 = 0, calculate_confidence = (\<lambda>docs. 5 + length docs)\<rparr>"

definition example_tutor :: "nat tutor" where
  "example_tutor =
     \<lparr>is_initialized = True, t_memory_manager = Some (new_memory_manager 10),
      t_rag_pipeline = Some (pipeline_query example_pipeline (''t1'', ''t2'')),
      current_session_id = Some ''s1'',
      system_stats = \<lparr>total_queries = 0, successful_responses = 0, failed_responses = 0,
                       documents_loaded = 3\<rparr>\<rparr>"

subsection \<open>Sessions: JSON files\<close>

text \<open>
  \<open>save_session\<close> and \<open>load_session\<close> (conversation_memory.py, lines 162-197).
  \<open>to_json\<close> is what \<open>json.dump\<close> writes for a value (lists and tuples both become
  arrays) and \<open>from_json\<close> what \<open>json.load\<close> reads back. The file system maps a path
  to its content, a session document or anything else, and says which paths can be opened
  for writing; \<open>open\<close> raising and \<open>json.load\<close> raising are caught by the methods,
  which then leave the state as it is.
\<close>

datatype json = JNull | JBool bool | JInt int | JStr string | JArr "json list"

fun to_json :: "pyval \<Rightarrow> json" where
  "to_json VNone = JNull"
| "to_json (VBool b) = JBool b"
| "to_json (VInt i) = JInt i"
| "to_json (VStr s) = JStr s"
| "to_json (VList xs) = JArr (map to_json xs)"
| "to_json (VTuple xs) = JArr (map to_json xs)"

fun from_json :: "json \<Rightarrow> pyval" where
  "from_json JNull = VNone"
| "from_json (JBool b) = VBool b"
| "from_json (JInt i) = VInt i"
| "from_json (JStr s) = VStr s"
| "from_json (JArr xs) = VList (map from_json xs)"

fun json_native :: "pyval \<Rightarrow> bool" where
  "json_native (VList xs) = list_all json_native xs"
| "json_native (VTuple xs) = False"
| "json_native v = True"

record json_interaction =
  j_timestamp :: string
  j_human_input :: string
  j_ai_response :: string
  j_metadata :: "(string \<times> json) list"

record session_data =
  sd_student_profile :: "profile option"
  sd_conversation_history :: "json_interaction list option"
  sd_timestamp :: string

datatype file_content = Session_json session_data | Other_content

record filesystem =
  files :: "string \<Rightarrow> file_content option"
  writable :: "string \<Rightarrow> bool"

definition dump_interaction :: "interaction \<Rightarrow> json_interaction" where
  "dump_interaction i =
     \<lparr>j_timestamp = i_timestamp i, j_human_input = i_human_input i,
      j_ai_response = i_ai_response i,
      j_metadata = map (\<lambda>(key, v). (key, to_json v)) (i_metadata i)\<rparr>"

definition load_interaction :: "json_interaction \<Rightarrow> interaction" where
  "load_interaction j =
     \<lparr>i_timestamp = j_timestamp j, i_human_input = j_human_input j,
      i_ai_response = j_ai_response j,
      i_metadata = map (\<lambda>(key, v). (key, from_json v)) (j_metadata j)\<rparr>"

definition save_session :: "string \<Rightarrow> filesystem \<Rightarrow> memory_manager \<Rightarrow> string \<Rightarrow> filesystem" where
  "save_session now fs mm filepath =
     (let session_data =
            \<lparr>sd_student_profile = Some (student_profile mm),
             sd_conversation_history = Some (map dump_interaction (conversation_history mm)),
             sd_timestamp = now\<rparr>
      in if \<not> writable fs filepath then fs
         else fs\<lparr>files := (files fs)(filepath := Some (Session_json session_data))\<rparr>)"

fun restore_messages :: "memory_manager \<Rightarrow> interaction list \<Rightarrow> memory_manager" where
  "restore_messages mm [] = mm"
| "restore_messages mm (interaction # rest) =
     restore_messages
       (mm\<lparr>chat_memory := chat_memory mm @
            [HumanMessage (i_human_input interaction), AIMessage (i_ai_response interaction)]\<rparr>)
       rest"

definition load_session :: "filesystem \<Rightarrow> memory_manager \<Rightarrow> string \<Rightarrow> memory_manager" where
  "load_session fs mm filepath =
     (case files fs filepath of
        None \<Rightarrow> mm
      | Some Other_content \<Rightarrow> mm
      | Some (Session_json session_data) \<Rightarrow>
          (let mm1 = mm\<lparr>student_profile :=
                          (case sd_student_profile session_data of
                             None \<Rightarrow> student_profile mm | Some p \<Rightarrow> p),
                        conversation_history :=
                          (case sd_conversation_history session_data of
                             None \<Rightarrow> [] | Some h \<Rightarrow> map load_interaction h)\<rparr>;
               mm2 = mm1\<lparr>chat_memory := []\<rparr>
           in restore_messages mm2
                (py_slice_from (conversation_history mm2) (- max_history mm2))))"

definition messages_of :: "interaction list \<Rightarrow> message list" where
  "messages_of interactions =
     concat (map (\<lambda>i. [HumanMessage (i_human_input i), AIMessage (i_ai_response i)]) interactions)"

definition example_fs :: filesystem where
  "example_fs = \<lparr>files = (\<lambda>path. None), writable = (\<lambda>path. True)\<rparr>"

definition example_session :: memory_manager where
  "example_session =
     add_interaction (''t1'', ''t2'') (new_memory_manager 10) ''What is a fraction?'' ''A part''
       (Some [(''subject'', VStr ''math''), (''num_sources'', VInt 1),
              (''sources'', VList [VStr ''math_basics.txt''])])"

definition example_tuple_session :: memory_manager where
  "example_tuple_session =
     add_interaction (''t1'', ''t2'') (new_memory_manager 10) ''q'' ''a''
       (Some [(''pages'', VTuple [VInt 1, VInt 2])])"

section \<open>Theorems\<close>

lemma first_subject_general_iff:
  "''general'' \<notin> fst ` set tbl \<Longrightarrow>
   (first_subject tbl f = ''general'') =
   (\<forall>(s, kws) \<in> set tbl. \<forall>kw \<in> set kws. \<not> py_in kw f)"
proof (induction tbl f rule: first_subject.induct)
  case (1 filename)
  show ?case by simp
next
  case (2 subject kws rest filename)
  from "2.prems" have ne: "subject \<noteq> ''general''" and rest: "''general'' \<notin> fst ` set rest"
    by auto
  show ?case
  proof (cases "list_ex (\<lambda>keyword. py_in keyword filename) kws")
    case True
    then show ?thesis using ne by (auto simp: list_ex_iff)
  next
    case False
    then show ?thesis using "2.IH" [OF False rest] by (auto simp: list_ex_iff)
  qed
qed

lemma first_subject_first_match:
  "i < length tbl \<Longrightarrow> list_ex (\<lambda>kw. py_in kw f) (snd (tbl ! i)) \<Longrightarrow>
   (\<forall>j < i. \<not> list_ex (\<lambda>kw. py_in kw f) (snd (tbl ! j))) \<Longrightarrow>
   first_subject tbl f = fst (tbl ! i)"
proof (induction tbl f arbitrary: i rule: first_subject.induct)
  case (1 filename)
  then show ?case by simp
next
  case (2 subject kws rest filename)
  show ?case
  proof (cases i)
    case 0
    with "2.prems" show ?thesis by simp
  next
    case (Suc n)
    from "2.prems"(3) Suc have no: "\<not> list_ex (\<lambda>kw. py_in kw filename) kws"
      by (metis nth_Cons_0 snd_conv zero_less_Suc)
    have n1: "n < length rest" using "2.prems"(1) Suc by simp
    have n2: "list_ex (\<lambda>kw. py_in kw filename) (snd (rest ! n))"
      using "2.prems"(2) Suc by simp
    have n3: "\<forall>j < n. \<not> list_ex (\<lambda>kw. py_in kw filename) (snd (rest ! j))"
    proof (intro allI impI)
      fix j assume "j < n"
      then have "Suc j < i" using Suc by simp
      with "2.prems"(3) have "\<not> list_ex (\<lambda>kw. py_in kw filename) (snd (((subject, kws) # rest) ! Suc j))"
        by blast
      then show "\<not> list_ex (\<lambda>kw. py_in kw filename) (snd (rest ! j))" by simp
    qed
    have "first_subject rest filename = fst (rest ! n)"
      by (rule "2.IH" [OF no n1 n2 n3])
    then show ?thesis using no Suc by simp
  qed
qed

lemma first_subject_in: "first_subject tbl f \<in> insert ''general'' (fst ` set tbl)"
  by (induction tbl f rule: first_subject.induct) auto


text \<open>
  Claim C8. \<open>_extract_subject_from_filename\<close> returns one of the six labels; it
  returns \<open>general\<close> exactly when no keyword of the table is a substring of the
  lowercased basename; and the subject returned is the first one, in the order math,
  science, history, english, computer, that has a matching keyword.
\<close>

theorem extract_subject_from_filename_label:
  "extract_subject_from_filename p \<in>
     {''math'', ''science'', ''history'', ''english'', ''computer'', ''general''}
   \<and> map fst subjects = [''math'', ''science'', ''history'', ''english'', ''computer'']
   \<and> ((extract_subject_from_filename p = ''general'') =
        (\<forall>(s, kws) \<in> set subjects. \<forall>kw \<in> set kws. \<not> sublist kw (lower (basename p))))
   \<and> (\<forall>i < length subjects.
         (\<exists>kw \<in> set (snd (subjects ! i)). sublist kw (lower (basename p))) \<and>
         (\<forall>j < i. \<forall>kw \<in> set (snd (subjects ! j)). \<not> sublist kw (lower (basename p)))
         \<longrightarrow> extract_subject_from_filename p = fst (subjects ! i))"
proof -
  let ?f = "lower (basename p)"
  have e: "extract_subject_from_filename p = first_subject subjects ?f"
    by (simp add: extract_subject_from_filename_def)
  have a: "extract_subject_from_filename p \<in>
     {''math'', ''science'', ''history'', ''english'', ''computer'', ''general''}"
    unfolding e using first_subject_in [of subjects ?f]
    by (simp add: subjects_def)
  have b: "map fst subjects = [''math'', ''science'', ''history'', ''english'', ''computer'']"
    by (simp add: subjects_def)
  have ng: "''general'' \<notin> fst ` set subjects"
    by (simp add: subjects_def)
  have c: "(extract_subject_from_filename p = ''general'') =
        (\<forall>(s, kws) \<in> set subjects. \<forall>kw \<in> set kws. \<not> sublist kw ?f)"
    unfolding e first_subject_general_iff [OF ng] py_in_def ..
  have d: "\<forall>i < length subjects.
         (\<exists>kw \<in> set (snd (subjects ! i)). sublist kw ?f) \<and>
         (\<forall>j < i. \<forall>kw \<in> set (snd (subjects ! j)). \<not> sublist kw ?f)
         \<longrightarrow> extract_subject_from_filename p = fst (subjects ! i)"
  proof (intro allI impI)
    fix i
    assume i: "i < length subjects"
      and h: "(\<exists>kw \<in> set (snd (subjects ! i)). sublist kw ?f) \<and>
              (\<forall>j < i. \<forall>kw \<in> set (snd (subjects ! j)). \<not> sublist kw ?f)"
    from h have h1: "list_ex (\<lambda>kw. py_in kw ?f) (snd (subjects ! i))"
      by (simp add: list_ex_iff py_in_def)
    from h have h2: "\<forall>j < i. \<not> list_ex (\<lambda>kw. py_in kw ?f) (snd (subjects ! j))"
      by (simp add: list_ex_iff py_in_def)
    show "extract_subject_from_filename p = fst (subjects ! i)"
      unfolding e by (rule first_subject_first_match [OF i h1 h2])
  qed
  from a b c d show ?thesis by (intro conjI)
qed

theorem extract_subject_from_filename_label_witness:
  "extract_subject_from_filename ''/data/My_Physics-MATH.txt'' = ''math''
   \<and> extract_subject_from_filename ''/data/unit1_Biology.pdf'' = ''science''
   \<and> extract_subject_from_filename ''/math/notes.txt'' = ''general''"
proof -
  note T = extract_subject_from_filename_label
  have g: "\<forall>(s, kws) \<in> set subjects. \<forall>kw \<in> set kws.
             \<not> sublist kw (lower (basename ''/math/notes.txt''))"
    by code_simp
  have m: "(\<exists>kw \<in> set (snd (subjects ! 0)).
              sublist kw (lower (basename ''/data/My_Physics-MATH.txt''))) \<and>
           (\<forall>j < (0::nat). \<forall>kw \<in> set (snd (subjects ! j)).
              \<not> sublist kw (lower (basename ''/data/My_Physics-MATH.txt'')))"
    by code_simp
  have s1: "\<exists>kw \<in> set (snd (subjects ! 1)).
              sublist kw (lower (basename ''/data/unit1_Biology.pdf''))"
    by code_simp
  have s0: "\<forall>kw \<in> set (snd (subjects ! 0)).
              \<not> sublist kw (lower (basename ''/data/unit1_Biology.pdf''))"
    by code_simp
  have s: "(\<exists>kw \<in> set (snd (subjects ! 1)).
              sublist kw (lower (basename ''/data/unit1_Biology.pdf''))) \<and>
           (\<forall>j < (1::nat). \<forall>kw \<in> set (snd (subjects ! j)).
              \<not> sublist kw (lower (basename ''/data/unit1_Biology.pdf'')))"
    using s1 s0 by simp
  have l0: "(0::nat) < length subjects" and l1: "(1::nat) < length subjects"
    by (simp_all add: subjects_def)
  have f0: "fst (subjects ! 0) = ''math''" and f1: "fst (subjects ! 1) = ''science''"
    by (simp_all add: subjects_def)
  have r1: "extract_subject_from_filename ''/data/My_Physics-MATH.txt'' = ''math''"
    using T [of "''/data/My_Physics-MATH.txt''", THEN conjunct2, THEN conjunct2,
             THEN conjunct2, rule_format, OF l0 m] f0 by simp
  have r2: "extract_subject_from_filename ''/data/unit1_Biology.pdf'' = ''science''"
    using T [of "''/data/unit1_Biology.pdf''", THEN conjunct2, THEN conjunct2,
             THEN conjunct2, rule_format, OF l1 s] f1 by simp
  have r3: "extract_subject_from_filename ''/math/notes.txt'' = ''general''"
    by (rule iffD2 [OF T [of "''/math/notes.txt''", THEN conjunct2, THEN conjunct2,
                          THEN conjunct1] g])
  from r1 r2 r3 show ?thesis by (intro conjI)
qed


lemma py_slice_from_last:
  "0 < n \<Longrightarrow> py_slice_from xs (- n) = drop (length xs - nat n) xs"
  by (simp add: py_slice_from_def)

lemma add_interaction_history:
  "conversation_history (add_interaction clock mm q a md) =
     (let history = conversation_history mm @
            [\<lparr>i_timestamp = fst clock, i_human_input = q, i_ai_response = a,
              i_metadata = (case md of None \<Rightarrow> [] | Some d \<Rightarrow> d)\<rparr>]
      in if int (length history) > max_history mm * 2
         then py_slice_from history (- max_history mm * 2) else history)"
  by (simp add: add_interaction_def update_student_profile_def Let_def)

lemma add_interaction_max_history:
  "max_history (add_interaction clock mm q a md) = max_history mm"
  by (simp add: add_interaction_def update_student_profile_def Let_def)

lemma add_interaction_history_bounded:
  assumes h: "1 \<le> max_history mm"
  shows "length (conversation_history (add_interaction clock mm q a md)) \<le> nat (2 * max_history mm)"
    and "conversation_history (add_interaction clock mm q a md) =
           drop (length (conversation_history mm) + 1 - nat (2 * max_history mm))
             (conversation_history mm @
                [\<lparr>i_timestamp = fst clock, i_human_input = q, i_ai_response = a,
                  i_metadata = (case md of None \<Rightarrow> [] | Some d \<Rightarrow> d)\<rparr>])"
proof -
  have pos: "0 < max_history mm * 2" using h by simp
  have m: "- max_history mm * 2 = - (max_history mm * 2)" by simp
  show "length (conversation_history (add_interaction clock mm q a md)) \<le> nat (2 * max_history mm)"
    unfolding add_interaction_history Let_def m py_slice_from_last [OF pos]
    using h by (auto simp: mult.commute)
  show "conversation_history (add_interaction clock mm q a md) =
           drop (length (conversation_history mm) + 1 - nat (2 * max_history mm))
             (conversation_history mm @
                [\<lparr>i_timestamp = fst clock, i_human_input = q, i_ai_response = a,
                  i_metadata = (case md of None \<Rightarrow> [] | Some d \<Rightarrow> d)\<rparr>])"
    unfolding add_interaction_history Let_def m py_slice_from_last [OF pos]
    using h by (auto simp: mult.commute)
qed

lemma add_interactions_history_bounded:
  "1 \<le> max_history mm \<Longrightarrow> cs \<noteq> [] \<Longrightarrow>
   length (conversation_history (add_interactions mm cs)) \<le> nat (2 * max_history mm)"
proof (induction cs arbitrary: mm)
  case Nil
  then show ?case by simp
next
  case (Cons c cs)
  let ?mm = "add_interaction (c_clock c) mm (c_human_input c) (c_ai_response c) (c_metadata c)"
  show ?case
  proof (cases "cs = []")
    case True
    then show ?thesis using add_interaction_history_bounded(1) [OF Cons.prems(1)] by simp
  next
    case False
    have "1 \<le> max_history ?mm" using Cons.prems(1) by (simp add: add_interaction_max_history)
    from Cons.IH [OF this False] show ?thesis by (simp add: add_interaction_max_history)
  qed
qed

text \<open>
  Claim C2. The history is meant to hold at most \<open>2 * max_history\<close> records, the
  oldest being evicted. With \<open>max_history = 0\<close> the slice
  \<open>conversation_history[-0:]\<close> is the whole list: the first call on a fresh manager
  leaves one record in the history, above the bound 0. (For \<open>max_history \<ge> 1\<close> the
  bound and the eviction order hold: \<open>add_interaction_history_bounded\<close>.)
\<close>

theorem add_interaction_zero_max_history_keeps_all:
  "conversation_history
     (add_interaction (''t1'', ''t2'') (new_memory_manager 0) ''q'' ''a'' None) =
     [\<lparr>i_timestamp = ''t1'', i_human_input = ''q'', i_ai_response = ''a'', i_metadata = []\<rparr>]
   \<and> \<not> int (length (conversation_history
        (add_interaction (''t1'', ''t2'') (new_memory_manager 0) ''q'' ''a'' None)))
        \<le> 2 * max_history (new_memory_manager 0)"
  by (simp add: add_interaction_history new_memory_manager_def py_slice_from_def)

lemma add_interaction_zero_grows:
  "max_history mm = 0 \<Longrightarrow>
   length (conversation_history (add_interaction clock mm q a md)) =
     Suc (length (conversation_history mm))"
  by (simp add: add_interaction_history py_slice_from_def)


lemma update_student_profile_subjects:
  "\<exists>ext. subjects_of_interest (student_profile (update_student_profile now mm q a md)) =
          subjects_of_interest (student_profile mm) @ ext
        \<and> (distinct (subjects_of_interest (student_profile mm)) \<longrightarrow>
           distinct (subjects_of_interest (student_profile mm) @ ext))"
  by (simp add: update_student_profile_def Let_def split: option.split pyval.split)

lemma update_student_profile_others:
  "common_mistakes (student_profile (update_student_profile now mm q a md)) =
     common_mistakes (student_profile mm)"
  "strengths (student_profile (update_student_profile now mm q a md)) =
     strengths (student_profile mm)"
  "session_count (student_profile (update_student_profile now mm q a md)) =
     session_count (student_profile mm) + 1"
  by (simp_all add: update_student_profile_def Let_def split: option.split pyval.split)

lemma update_student_profile_cong:
  "student_profile mm1 = student_profile mm2 \<Longrightarrow>
   student_profile (update_student_profile now mm1 q a md) =
   student_profile (update_student_profile now mm2 q a md)"
  by (simp add: update_student_profile_def Let_def)

lemma add_interaction_profile:
  "student_profile (add_interaction clock mm q a md) =
   student_profile (update_student_profile (snd clock) mm q a md)"
  unfolding add_interaction_def Let_def
  by (rule update_student_profile_cong) simp

lemma add_interaction_step:
  "prefix (subjects_of_interest (student_profile mm))
          (subjects_of_interest (student_profile (add_interaction clock mm q a md)))"
  "distinct (subjects_of_interest (student_profile mm)) \<Longrightarrow>
   distinct (subjects_of_interest (student_profile (add_interaction clock mm q a md)))"
  "common_mistakes (student_profile (add_interaction clock mm q a md)) =
     common_mistakes (student_profile mm)"
  "strengths (student_profile (add_interaction clock mm q a md)) =
     strengths (student_profile mm)"
  "session_count (student_profile (add_interaction clock mm q a md)) =
     session_count (student_profile mm) + 1"
  using update_student_profile_subjects [of "snd clock" mm q a md]
  by (auto simp: add_interaction_profile update_student_profile_others prefix_def)

lemma add_interactions_profile:
  "distinct (subjects_of_interest (student_profile mm)) \<Longrightarrow>
   distinct (subjects_of_interest (student_profile (add_interactions mm cs)))
   \<and> session_count (student_profile (add_interactions mm cs)) =
       session_count (student_profile mm) + int (length cs)"
proof (induction cs arbitrary: mm)
  case Nil
  then show ?case by simp
next
  case (Cons c cs)
  let ?mm = "add_interaction (c_clock c) mm (c_human_input c) (c_ai_response c) (c_metadata c)"
  have "distinct (subjects_of_interest (student_profile ?mm))"
    by (rule add_interaction_step(2) [OF Cons.prems])
  from Cons.IH [OF this] show ?case by (simp add: add_interaction_step(5))
qed


lemma filter_loop_take:
  "int (length acc) < k \<Longrightarrow>
   filter_loop fd k acc results = take (nat k) (acc @ filter (matches_filter fd) results)"
proof (induction results arbitrary: acc)
  case Nil
  then show ?case by simp
next
  case (Cons doc results)
  show ?case
  proof (cases "matches_filter fd doc")
    case False
    then show ?thesis using Cons by simp
  next
    case True
    show ?thesis
    proof (cases "int (length (acc @ [doc])) \<ge> k")
      case full: True
      with Cons.prems have "nat k = Suc (length acc)" by simp
      then show ?thesis using True full by (simp add: Let_def)
    next
      case notfull: False
      then have "int (length (acc @ [doc])) < k" by simp
      from Cons.IH [OF this] show ?thesis using True notfull by (simp add: Let_def)
    qed
  qed
qed

lemma py_slice_to_take: "0 \<le> k \<Longrightarrow> py_slice_to xs k = take (nat k) xs"
  by (simp add: py_slice_to_def)

lemma similarity_search_filtered:
  assumes k: "1 \<le> k" and fd: "filter_dict \<noteq> []"
  shows "similarity_search vs query k (Some filter_dict) =
           (case vs of None \<Rightarrow> []
            | Some store \<Rightarrow>
                (case store query (2 * k) of Inl e \<Rightarrow> []
                 | Inr results \<Rightarrow> take (nat k) (filter (matches_filter filter_dict) results)))"
proof -
  obtain kv kvs where f: "filter_dict = kv # kvs" using fd by (cases filter_dict) auto
  have z: "int (length ([] :: document list)) < k" using k by simp
  have k0: "0 \<le> k" using k by simp
  have fl: "\<And>results. filter_loop (kv # kvs) k [] results =
                take (nat k) (filter (matches_filter (kv # kvs)) results)"
    using filter_loop_take [OF z] by simp
  show ?thesis
    unfolding similarity_search_def f
    by (simp add: fl py_slice_to_take [OF k0] mult.commute split: option.split sum.split)
qed

text \<open>
  Claim C4. With \<open>k \<ge> 1\<close> and a non-empty filter, every document returned by
  \<open>similarity_search\<close> satisfies every key-value pair of the filter, at most \<open>k\<close>
  documents are returned, and they are the first matching documents, in the order of the
  unfiltered search, among its top \<open>2 * k\<close> results.
\<close>

theorem similarity_search_post_filter:
  assumes k: "1 \<le> k" and fd: "filter_dict \<noteq> []"
  shows "(\<forall>doc \<in> set (similarity_search vs query k (Some filter_dict)).
            \<forall>(key, v) \<in> set filter_dict. py_eq (dict_get (metadata doc) key) v)
       \<and> int (length (similarity_search vs query k (Some filter_dict))) \<le> k
       \<and> (\<forall>store results. vs = Some store \<and> store query (2 * k) = Inr results \<longrightarrow>
            similarity_search vs query k (Some filter_dict) =
              take (nat k) (filter (matches_filter filter_dict) results))"
proof -
  note e = similarity_search_filtered [OF k fd, of vs query]
  have a: "\<forall>doc \<in> set (similarity_search vs query k (Some filter_dict)).
            \<forall>(key, v) \<in> set filter_dict. py_eq (dict_get (metadata doc) key) v"
  proof
    fix doc assume d: "doc \<in> set (similarity_search vs query k (Some filter_dict))"
    then obtain results where "doc \<in> set (take (nat k) (filter (matches_filter filter_dict) results))"
      unfolding e by (auto split: option.splits sum.splits)
    then have "doc \<in> set (filter (matches_filter filter_dict) results)"
      by (rule in_set_takeD)
    then have "matches_filter filter_dict doc" by simp
    then show "\<forall>(key, v) \<in> set filter_dict. py_eq (dict_get (metadata doc) key) v"
      by (simp add: matches_filter_def list_all_iff)
  qed
  have b: "int (length (similarity_search vs query k (Some filter_dict))) \<le> k"
    unfolding e using k by (auto split: option.splits sum.splits)
  have c: "\<forall>store results. vs = Some store \<and> store query (2 * k) = Inr results \<longrightarrow>
            similarity_search vs query k (Some filter_dict) =
              take (nat k) (filter (matches_filter filter_dict) results)"
    unfolding e by simp
  from a b c show ?thesis by (intro conjI)
qed

theorem similarity_search_post_filter_witness:
  "similarity_search (Some example_store) ''algebra'' 1 (Some [(''subject'', VStr ''math'')]) =
     [\<lparr>page_content = ''b'', metadata = [(''subject'', VStr ''math'')]\<rparr>]"
proof -
  have k: "(1::int) \<le> 1" by simp
  have fd: "[(''subject'', VStr ''math'')] \<noteq> []" by simp
  have r: "example_store ''algebra'' (2 * 1) =
             Inr [\<lparr>page_content = ''a'', metadata = [(''subject'', VStr ''science'')]\<rparr>,
                  \<lparr>page_content = ''b'', metadata = [(''subject'', VStr ''math'')]\<rparr>]"
    by (simp add: example_store_def example_docs_def)
  have "similarity_search (Some example_store) ''algebra'' 1 (Some [(''subject'', VStr ''math'')]) =
          take (nat 1) (filter (matches_filter [(''subject'', VStr ''math'')])
             [\<lparr>page_content = ''a'', metadata = [(''subject'', VStr ''science'')]\<rparr>,
              \<lparr>page_content = ''b'', metadata = [(''subject'', VStr ''math'')]\<rparr>])"
    using similarity_search_post_filter [OF k fd, of "Some example_store" "''algebra''",
            THEN conjunct2, THEN conjunct2, rule_format, of example_store] r
    by simp
  then show ?thesis by (simp add: matches_filter_def dict_get_def)
qed


lemma update_student_profile_subjects_step:
  "subjects_of_interest (student_profile (update_student_profile now mm q a md)) =
     subjects_of_interest (student_profile mm)
   \<or> (\<exists>d s. md = Some d \<and> dict_get d ''subject'' = VStr s
        \<and> s \<notin> set (subjects_of_interest (student_profile mm))
        \<and> subjects_of_interest (student_profile (update_student_profile now mm q a md)) =
            subjects_of_interest (student_profile mm) @ [s])"
  by (simp add: update_student_profile_def Let_def split: option.split pyval.split)

text \<open>
  Claim C6. Along every sequence of interactions on a fresh manager the list
  \<open>subjects_of_interest\<close> has no duplicates and \<open>session_count\<close> counts the
  calls; one \<open>add_interaction\<close> leaves the subject list unchanged or appends the
  metadata subject, which was not a member; no profile list loses an element; and
  \<open>session_count\<close> grows by exactly 1.
\<close>

theorem student_profile_accumulates:
  "distinct (subjects_of_interest (student_profile (add_interactions (new_memory_manager h) cs)))
   \<and> session_count (student_profile (add_interactions (new_memory_manager h) cs)) = int (length cs)
   \<and> (subjects_of_interest (student_profile (add_interaction clock mm q a md)) =
         subjects_of_interest (student_profile mm)
       \<or> (\<exists>d s. md = Some d \<and> dict_get d ''subject'' = VStr s
            \<and> s \<notin> set (subjects_of_interest (student_profile mm))
            \<and> subjects_of_interest (student_profile (add_interaction clock mm q a md)) =
                subjects_of_interest (student_profile mm) @ [s]))
   \<and> (distinct (subjects_of_interest (student_profile mm)) \<longrightarrow>
        distinct (subjects_of_interest (student_profile (add_interaction clock mm q a md))))
   \<and> prefix (subjects_of_interest (student_profile mm))
            (subjects_of_interest (student_profile (add_interaction clock mm q a md)))
   \<and> common_mistakes (student_profile (add_interaction clock mm q a md)) =
       common_mistakes (student_profile mm)
   \<and> strengths (student_profile (add_interaction clock mm q a md)) =
       strengths (student_profile mm)
   \<and> session_count (student_profile (add_interaction clock mm q a md)) =
       session_count (student_profile mm) + 1"
proof -
  have d0: "distinct (subjects_of_interest (student_profile (new_memory_manager h)))"
    by (simp add: new_memory_manager_def)
  have s0: "session_count (student_profile (new_memory_manager h)) = 0"
    by (simp add: new_memory_manager_def)
  note seq = add_interactions_profile [OF d0, of cs]
  have a: "distinct (subjects_of_interest (student_profile (add_interactions (new_memory_manager h) cs)))"
    using seq by (rule conjunct1)
  have b: "session_count (student_profile (add_interactions (new_memory_manager h) cs)) = int (length cs)"
    using seq s0 by simp
  have c: "subjects_of_interest (student_profile (add_interaction clock mm q a md)) =
         subjects_of_interest (student_profile mm)
       \<or> (\<exists>d s. md = Some d \<and> dict_get d ''subject'' = VStr s
            \<and> s \<notin> set (subjects_of_interest (student_profile mm))
            \<and> subjects_of_interest (student_profile (add_interaction clock mm q a md)) =
                subjects_of_interest (student_profile mm) @ [s])"
    unfolding add_interaction_profile by (rule update_student_profile_subjects_step)
  have d: "distinct (subjects_of_interest (student_profile mm)) \<longrightarrow>
        distinct (subjects_of_interest (student_profile (add_interaction clock mm q a md)))"
    using add_interaction_step(2) by blast
  have e: "prefix (subjects_of_interest (student_profile mm))
            (subjects_of_interest (student_profile (add_interaction clock mm q a md)))"
    by (rule add_interaction_step(1))
  have f: "common_mistakes (student_profile (add_interaction clock mm q a md)) =
       common_mistakes (student_profile mm)"
    by (rule add_interaction_step(3))
  have g: "strengths (student_profile (add_interaction clock mm q a md)) =
       strengths (student_profile mm)"
    by (rule add_interaction_step(4))
  have i: "session_count (student_profile (add_interaction clock mm q a md)) =
       session_count (student_profile mm) + 1"
    by (rule add_interaction_step(5))
  from a b c d e f g i show ?thesis by (intro conjI)
qed

theorem student_profile_accumulates_witness:
  "distinct (subjects_of_interest (student_profile
      (add_interactions (new_memory_manager 10) example_calls)))
   \<and> session_count (student_profile
      (add_interactions (new_memory_manager 10) example_calls)) = 2
   \<and> distinct (subjects_of_interest (student_profile
        (add_interaction (''t1'', ''t2'') (new_memory_manager 10) ''q'' ''a''
           (Some [(''subject'', VStr ''math'')]))))"
proof -
  have d: "distinct (subjects_of_interest (student_profile (new_memory_manager 10)))"
    by (simp add: new_memory_manager_def)
  have l: "int (length example_calls) = 2" by (simp add: example_calls_def)
  note T = student_profile_accumulates [of 10 example_calls "(''t1'', ''t2'')"
             "new_memory_manager 10" "''q''" "''a''" "Some [(''subject'', VStr ''math'')]"]
  from T have a: "distinct (subjects_of_interest (student_profile
      (add_interactions (new_memory_manager 10) example_calls)))" by (rule conjunct1)
  from T l have b: "session_count (student_profile
      (add_interactions (new_memory_manager 10) example_calls)) = 2" by simp
  from T d have c: "distinct (subjects_of_interest (student_profile
        (add_interaction (''t1'', ''t2'') (new_memory_manager 10) ''q'' ''a''
           (Some [(''subject'', VStr ''math'')]))))" by blast
  from a b c show ?thesis by (intro conjI)
qed



text \<open>
  Claim C5. \<open>_initialize_model\<close> runs the initializer of the backend that the
  credentials select (\<open>spec_selected_backend\<close>, written from the claim's words): when
  that initializer does not raise, its backend and provider name are installed; when it
  raises, the result is that of the fallback initializer, which installs the fallback list
  model.
\<close>

theorem initialize_model_selects_backend:
  "(\<not> initializer_raises env
        (spec_selected_backend (model_name m) (gemini_api_key m)
           (huggingface_api_token m) (use_local m)) \<longrightarrow>
      fst (initialize_model env m) = None
      \<and> llm (snd (initialize_model env m)) =
          Some (spec_selected_backend (model_name m) (gemini_api_key m)
                  (huggingface_api_token m) (use_local m))
      \<and> provider (snd (initialize_model env m)) =
          provider_name (spec_selected_backend (model_name m) (gemini_api_key m)
                  (huggingface_api_token m) (use_local m)))
   \<and> (initializer_raises env
        (spec_selected_backend (model_name m) (gemini_api_key m)
           (huggingface_api_token m) (use_local m)) \<longrightarrow>
      (\<exists>m1. initialize_model env m = initialize_fallback_model env m1))
   \<and> (initializer_raises env
        (spec_selected_backend (model_name m) (gemini_api_key m)
           (huggingface_api_token m) (use_local m)) \<and> \<not> fake_list_raises env \<longrightarrow>
      fst (initialize_model env m) = None
      \<and> llm (snd (initialize_model env m)) = Some FakeListLLM
      \<and> provider (snd (initialize_model env m)) = ''fallback_fake_llm'')"
  by (auto simp: initialize_model_def spec_selected_backend_def py_in_def Let_def
        initialize_huggingface_hub_model_def initialize_local_model_def
        initialize_gemini_model_def initialize_fallback_model_def)

theorem initialize_model_selects_backend_witness:
  "llm (snd (initialize_model example_env example_manager)) = Some FakeListLLM
   \<and> provider (snd (initialize_model example_env example_manager)) = ''fallback_fake_llm''
   \<and> llm (snd (initialize_model (example_env\<lparr>hub_raises := False\<rparr>) example_manager)) =
       Some HuggingFaceHub"
proof -
  have s: "spec_selected_backend (model_name example_manager) (gemini_api_key example_manager)
             (huggingface_api_token example_manager) (use_local example_manager) = HuggingFaceHub"
    by code_simp
  have r: "initializer_raises example_env HuggingFaceHub" "\<not> fake_list_raises example_env"
    by (simp_all add: example_env_def)
  have r': "\<not> initializer_raises (example_env\<lparr>hub_raises := False\<rparr>) HuggingFaceHub"
    by simp
  note T1 = initialize_model_selects_backend [of example_env example_manager, unfolded s]
  note T2 = initialize_model_selects_backend
              [of "example_env\<lparr>hub_raises := False\<rparr>" example_manager, unfolded s]
  from T1 r have a: "llm (snd (initialize_model example_env example_manager)) = Some FakeListLLM"
    and b: "provider (snd (initialize_model example_env example_manager)) = ''fallback_fake_llm''"
    by blast+
  from T2 r' have c:
    "llm (snd (initialize_model (example_env\<lparr>hub_raises := False\<rparr>) example_manager)) =
       Some HuggingFaceHub"
    by blast
  from a b c show ?thesis by (intro conjI)
qed









lemma py_join_Nil_Cons:
  "py_join sep ([] # y # ys) = sep @ py_join sep (y # ys)"
  by simp




lemma count_occurrences_tl: "count_occurrences sub cs \<le> count_occurrences sub (c # cs)"
  by simp




















lemma run_chain_profile:
  "student_profile (snd (run_chain p mm question)) = student_profile mm"
  by (simp add: run_chain_def Let_def split: chain.split sum.split prod.split)

lemma get_student_profile_summary_cong:
  "student_profile mm1 = student_profile mm2 \<Longrightarrow>
   get_student_profile_summary mm1 = get_student_profile_summary mm2"
  by (simp add: get_student_profile_summary_def)

lemma query_cases:
  "rag_query p clock mm question subject_filter =
     (case fst (run_chain p mm question) of
        Inr result \<Rightarrow> query_body p clock mm question subject_filter
      | Inl e \<Rightarrow>
          (case generate_response p question of
             Inr fallback_answer \<Rightarrow>
               (Inr \<lparr>answer = fallback_answer, sources = [],
                     r_student_profile = get_student_profile_summary mm,
                     confidence = float_0_3 p\<rparr>, snd (run_chain p mm question))
           | Inl inner_e \<Rightarrow>
               (Inr \<lparr>answer = apology_answer, sources = [],
                     r_student_profile = get_student_profile_summary mm,
                     confidence = float_0_0 p\<rparr>, snd (run_chain p mm question))))"
proof -
  obtain r mm1 where rc: "run_chain p mm question = (r, mm1)" by (cases "run_chain p mm question")
  have "student_profile mm1 = student_profile mm"
    using run_chain_profile [of p mm question] rc by simp
  then have s: "get_student_profile_summary mm1 = get_student_profile_summary mm"
    by (rule get_student_profile_summary_cong)
  show ?thesis
    by (cases r) (simp_all add: rag_query_def query_body_def rc s Let_def split: sum.split)
qed



lemma chat_stats:
  "system_stats (snd (chat z t message subject_filter)) =
     (if \<not> is_initialized t then system_stats t
      else (system_stats t)
             \<lparr>total_queries := total_queries (system_stats t) + 1,
              successful_responses := successful_responses (system_stats t) +
                 (if answered t message subject_filter then 1 else 0),
              failed_responses := failed_responses (system_stats t) +
                 (if answered t message subject_filter then 0 else 1)\<rparr>)"
  by (cases "query_outcome t message subject_filter")
     (simp add: chat_def answered_def Let_def split: sum.split)

lemma chat_stats_equation:
  "total_queries (system_stats t) =
     successful_responses (system_stats t) + failed_responses (system_stats t) \<Longrightarrow>
   total_queries (system_stats (snd (chat z t message subject_filter))) =
     successful_responses (system_stats (snd (chat z t message subject_filter))) +
     failed_responses (system_stats (snd (chat z t message subject_filter)))"
  unfolding chat_stats by simp

lemma chats_stats_equation:
  "total_queries (system_stats t) =
     successful_responses (system_stats t) + failed_responses (system_stats t) \<Longrightarrow>
   total_queries (system_stats (chats z t calls)) =
     successful_responses (system_stats (chats z t calls)) +
     failed_responses (system_stats (chats z t calls))"
proof (induction calls arbitrary: t)
  case Nil
  then show ?case by simp
next
  case (Cons c calls)
  obtain message subject_filter where c: "c = (message, subject_filter)" by (cases c)
  show ?case unfolding c chats.simps
    by (rule Cons.IH [OF chat_stats_equation [OF Cons.prems]])
qed

text \<open>
  Claim C9. The equation \<open>total_queries = successful_responses + failed_responses\<close>
  holds for a new tutor and is kept by every sequence of \<open>chat\<close> calls; a call on an
  uninitialized system changes no counter; a call on an initialized system adds 1 to
  \<open>total_queries\<close> and 1 to exactly one of \<open>successful_responses\<close> (the pipeline
  returned a non-empty answer) and \<open>failed_responses\<close> (empty answer or exception).
\<close>

theorem chat_stats_accounting:
  "total_queries (system_stats (new_tutor :: 'f tutor)) =
     successful_responses (system_stats (new_tutor :: 'f tutor)) +
     failed_responses (system_stats (new_tutor :: 'f tutor))
   \<and> (total_queries (system_stats t) =
        successful_responses (system_stats t) + failed_responses (system_stats t) \<longrightarrow>
      total_queries (system_stats (chats z t calls)) =
        successful_responses (system_stats (chats z t calls)) +
        failed_responses (system_stats (chats z t calls)))
   \<and> (\<not> is_initialized t \<longrightarrow>
        system_stats (snd (chat z t message subject_filter)) = system_stats t)
   \<and> (is_initialized t \<longrightarrow>
        total_queries (system_stats (snd (chat z t message subject_filter))) =
          total_queries (system_stats t) + 1
        \<and> successful_responses (system_stats (snd (chat z t message subject_filter))) =
            successful_responses (system_stats t) +
            (if answered t message subject_filter then 1 else 0)
        \<and> failed_responses (system_stats (snd (chat z t message subject_filter))) =
            failed_responses (system_stats t) +
            (if answered t message subject_filter then 0 else 1)
        \<and> documents_loaded (system_stats (snd (chat z t message subject_filter))) =
            documents_loaded (system_stats t))"
proof -
  have a: "total_queries (system_stats (new_tutor :: 'f tutor)) =
     successful_responses (system_stats (new_tutor :: 'f tutor)) +
     failed_responses (system_stats (new_tutor :: 'f tutor))"
    by (simp add: new_tutor_def)
  have b: "total_queries (system_stats t) =
        successful_responses (system_stats t) + failed_responses (system_stats t) \<longrightarrow>
      total_queries (system_stats (chats z t calls)) =
        successful_responses (system_stats (chats z t calls)) +
        failed_responses (system_stats (chats z t calls))"
    by (rule impI) (rule chats_stats_equation)
  have c: "\<not> is_initialized t \<longrightarrow>
        system_stats (snd (chat z t message subject_filter)) = system_stats t"
    by (simp add: chat_stats)
  have d: "is_initialized t \<longrightarrow>
        total_queries (system_stats (snd (chat z t message subject_filter))) =
          total_queries (system_stats t) + 1
        \<and> successful_responses (system_stats (snd (chat z t message subject_filter))) =
            successful_responses (system_stats t) +
            (if answered t message subject_filter then 1 else 0)
        \<and> failed_responses (system_stats (snd (chat z t message subject_filter))) =
            failed_responses (system_stats t) +
            (if answered t message subject_filter then 0 else 1)
        \<and> documents_loaded (system_stats (snd (chat z t message subject_filter))) =
            documents_loaded (system_stats t)"
    by (simp add: chat_stats)
  from a b c d show ?thesis by (intro conjI)
qed

theorem chat_stats_accounting_witness:
  "total_queries (system_stats (chats 0 example_tutor [(''fractions'', None), (''why'', None)])) =
     successful_responses
       (system_stats (chats 0 example_tutor [(''fractions'', None), (''why'', None)])) +
     failed_responses
       (system_stats (chats 0 example_tutor [(''fractions'', None), (''why'', None)]))
   \<and> successful_responses (system_stats (snd (chat 0 example_tutor ''fractions'' None))) = 1
   \<and> failed_responses (system_stats (snd (chat 0 example_tutor ''fractions'' None))) = 0
   \<and> total_queries (system_stats (snd (chat 0 example_tutor ''fractions'' None))) = 1"
proof -
  note T = chat_stats_accounting [of example_tutor 0 "[(''fractions'', None), (''why'', None)]"
             "''fractions''" None]
  have i: "is_initialized example_tutor" by (simp add: example_tutor_def)
  have e: "total_queries (system_stats example_tutor) =
        successful_responses (system_stats example_tutor) +
        failed_responses (system_stats example_tutor)"
    by (simp add: example_tutor_def)
  have s: "total_queries (system_stats example_tutor) = 0"
    "successful_responses (system_stats example_tutor) = 0"
    "failed_responses (system_stats example_tutor) = 0"
    by (simp_all add: example_tutor_def)
  have q: "fst (rag_query example_pipeline (''t1'', ''t2'') (new_memory_manager 10) ''fractions'' None)
             = Inr \<lparr>answer = ''Let us look at fractions'', sources = [],
                    r_student_profile = get_student_profile_summary (new_memory_manager 10),
                    confidence = float_0_3 example_pipeline\<rparr>"
    unfolding query_cases
    by (simp add: run_chain_def example_pipeline_def Let_def)
  have an: "answered example_tutor ''fractions'' None"
    unfolding answered_def query_outcome_def
    using q by (simp add: example_tutor_def pipeline_query_def split_beta)
  have a:
    "total_queries (system_stats (chats 0 example_tutor [(''fractions'', None), (''why'', None)])) =
     successful_responses
       (system_stats (chats 0 example_tutor [(''fractions'', None), (''why'', None)])) +
     failed_responses
       (system_stats (chats 0 example_tutor [(''fractions'', None), (''why'', None)]))"
    by (rule T [THEN conjunct2, THEN conjunct1, THEN mp, OF e])
  note D = T [THEN conjunct2, THEN conjunct2, THEN conjunct2, THEN mp, OF i]
  have b1: "total_queries (system_stats (snd (chat 0 example_tutor ''fractions'' None))) = 1"
    using D [THEN conjunct1] by (simp add: s)
  have b2: "successful_responses (system_stats (snd (chat 0 example_tutor ''fractions'' None))) = 1"
    using D [THEN conjunct2, THEN conjunct1] an by (simp add: s)
  have b3: "failed_responses (system_stats (snd (chat 0 example_tutor ''fractions'' None))) = 0"
    using D [THEN conjunct2, THEN conjunct2, THEN conjunct1] an by (simp add: s)
  from a b2 b3 b1 show ?thesis by (intro conjI)
qed

lemma from_to_json: "json_native v \<Longrightarrow> from_json (to_json v) = v"
proof (induction v)
  case (VList xs)
  then have "map (from_json \<circ> to_json) xs = xs"
    by (simp add: list_all_iff map_idI)
  then show ?case by simp
qed simp_all

lemma load_dump_interaction:
  "\<forall>(key, v) \<in> set (i_metadata i). json_native v \<Longrightarrow> load_interaction (dump_interaction i) = i"
proof -
  assume n: "\<forall>(key, v) \<in> set (i_metadata i). json_native v"
  have "map ((\<lambda>(key, v). (key, from_json v)) \<circ> (\<lambda>(key, v). (key, to_json v))) (i_metadata i)
          = i_metadata i"
    using n by (intro map_idI) (auto simp: from_to_json)
  then show ?thesis by (simp add: load_interaction_def dump_interaction_def)
qed

lemma restore_messages_eq:
  "restore_messages mm is = mm\<lparr>chat_memory := chat_memory mm @ messages_of is\<rparr>"
  by (induction "is" arbitrary: mm) (simp_all add: messages_of_def)

lemma load_save_session:
  assumes w: "writable fs filepath"
    and n: "\<forall>i \<in> set (conversation_history mm). \<forall>(key, v) \<in> set (i_metadata i). json_native v"
  shows "load_session (save_session now fs mm filepath) other filepath =
           other\<lparr>student_profile := student_profile mm,
                 conversation_history := conversation_history mm,
                 chat_memory := messages_of
                   (py_slice_from (conversation_history mm) (- max_history other))\<rparr>"
proof -
  have "map (load_interaction \<circ> dump_interaction) (conversation_history mm) =
          conversation_history mm"
    using n by (intro map_idI) (simp add: load_dump_interaction)
  then show ?thesis
    using w by (simp add: load_session_def save_session_def Let_def restore_messages_eq)
qed

text \<open>
  Claim C7, as amended. When the session file can be written and every metadata value of
  the history is JSON-native (None, booleans, integers, strings and lists of these, no
  tuples), \<open>save_session\<close> followed by \<open>load_session\<close> of the same file on any
  manager restores \<open>student_profile\<close> and \<open>conversation_history\<close> exactly; with
  \<open>max_history \<ge> 1\<close> on the loading manager the window memory holds the messages of the
  last \<open>max_history\<close> interactions of the restored history.
\<close>

theorem session_save_load_roundtrip:
  assumes "writable fs filepath"
    and "\<forall>i \<in> set (conversation_history mm). \<forall>(key, v) \<in> set (i_metadata i). json_native v"
  shows "student_profile (load_session (save_session now fs mm filepath) other filepath) =
           student_profile mm
       \<and> conversation_history (load_session (save_session now fs mm filepath) other filepath) =
           conversation_history mm
       \<and> (1 \<le> max_history other \<longrightarrow>
            chat_memory (load_session (save_session now fs mm filepath) other filepath) =
              messages_of (drop (length (conversation_history mm) - nat (max_history other))
                             (conversation_history mm)))"
  unfolding load_save_session [OF assms]
  by (simp add: py_slice_from_def)

theorem session_save_load_roundtrip_witness:
  "student_profile (load_session (save_session ''now'' example_fs example_session ''s.json'')
      (new_memory_manager 5) ''s.json'') = student_profile example_session
   \<and> conversation_history (load_session (save_session ''now'' example_fs example_session ''s.json'')
      (new_memory_manager 5) ''s.json'') = conversation_history example_session
   \<and> chat_memory (load_session (save_session ''now'' example_fs example_session ''s.json'')
      (new_memory_manager 5) ''s.json'') =
        [HumanMessage ''What is a fraction?'', AIMessage ''A part'']"
proof -
  have w: "writable example_fs ''s.json''" by (simp add: example_fs_def)
  have h: "conversation_history example_session =
             [\<lparr>i_timestamp = ''t1'', i_human_input = ''What is a fraction?'',
               i_ai_response = ''A part'',
               i_metadata = [(''subject'', VStr ''math''), (''num_sources'', VInt 1),
                             (''sources'', VList [VStr ''math_basics.txt''])]\<rparr>]"
    by (simp add: example_session_def add_interaction_history new_memory_manager_def)
  have n: "\<forall>i \<in> set (conversation_history example_session).
             \<forall>(key, v) \<in> set (i_metadata i). json_native v"
    unfolding h by simp
  have m: "(1::int) \<le> max_history (new_memory_manager 5)" by (simp add: new_memory_manager_def)
  note T = session_save_load_roundtrip [OF w n, of "''now''" "new_memory_manager 5"]
  have c: "chat_memory (load_session (save_session ''now'' example_fs example_session ''s.json'')
      (new_memory_manager 5) ''s.json'') =
        [HumanMessage ''What is a fraction?'', AIMessage ''A part'']"
    using T [THEN conjunct2, THEN conjunct2, THEN mp, OF m]
    by (simp add: h messages_of_def new_memory_manager_def)
  from T [THEN conjunct1] T [THEN conjunct2, THEN conjunct1] c show ?thesis by (intro conjI)
qed

theorem session_save_load_counterexample:
  "conversation_history
     (load_session (save_session ''now'' example_fs example_tuple_session ''s.json'')
        (new_memory_manager 10) ''s.json'') \<noteq> conversation_history example_tuple_session
   \<and> i_metadata (hd (conversation_history example_tuple_session)) =
       [(''pages'', VTuple [VInt 1, VInt 2])]
   \<and> i_metadata (hd (conversation_history
       (load_session (save_session ''now'' example_fs example_tuple_session ''s.json'')
          (new_memory_manager 10) ''s.json''))) = [(''pages'', VList [VInt 1, VInt 2])]
   \<and> \<not> py_eq (VList [VInt 1, VInt 2]) (VTuple [VInt 1, VInt 2])
   \<and> chat_memory
       (load_session (save_session ''now'' example_fs example_session ''s.json'')
          (new_memory_manager 0) ''s.json'') =
       [HumanMessage ''What is a fraction?'', AIMessage ''A part'']
   \<and> messages_of (drop (length (conversation_history example_session) - 0)
                    (conversation_history example_session)) = []"
  by (simp add: load_session_def save_session_def example_fs_def example_tuple_session_def
        example_session_def add_interaction_history new_memory_manager_def Let_def
        dump_interaction_def load_interaction_def py_slice_from_def messages_of_def)

end
